theory Spec2Isabelle
  imports Complex_Main "HOL-Library.Multiset" "HOL-Library.Log_Nat"
begin

section \<open>Python values, exceptions and arithmetic\<close>

text \<open>
  The exceptions that \<^verbatim>\<open>runner_discriminator.py\<close> can end with. The first five are raised
  by the interpreter or the standard library at a statement of the source; \<open>External\<close> is
  an exception that comes out of a collaborator that is not part of this file
  (\<^verbatim>\<open>TUDataset\<close>, \<^verbatim>\<open>TripleSet\<close>, \<^verbatim>\<open>DiscriminatorModel\<close>), carried with its message.
  \<open>ConfigurationError\<close> is the error kind named by the specification; no statement of the
  source raises it.
\<close>

datatype error =
    ZeroDivisionError
  | TypeError
  | AttributeError string
  | FileExistsError string
  | IsADirectoryError string
  | External string
  | ConfigurationError

text \<open>
  A Python float is a binary64 number; it is kept as the rational it denotes. For a
  positive rational \<open>x\<close>, \<open>floor_log2 x\<close> is the exponent \<open>e\<close> with
  \<open>2\<^sup>e \<le> x < 2\<^sup>e\<^sup>+\<^sup>1\<close>, found from the bit lengths of the numerator and the denominator.
\<close>

definition floor_log2 :: "rat \<Rightarrow> int" where
  "floor_log2 x =
     (let (a, b) = quotient_of x; d = bitlen a - bitlen b
      in if 2 powi d \<le> x then d else d - 1)"

text \<open>The nearest integer, a tie going to the even one.\<close>

definition round_half_even :: "rat \<Rightarrow> int" where
  "round_half_even x =
     (let f = \<lfloor>x\<rfloor>; r = x - of_int f
      in if r < 1 / 2 then f else if 1 / 2 < r then f + 1 else if even f then f else f + 1)"

text \<open>
  The binary64 number nearest to a rational, ties to even: 53 significant bits, and no
  bit below \<open>2\<^sup>-\<^sup>1\<^sup>0\<^sup>7\<^sup>4\<close>. The exponent is not bounded above: a quotient of \<open>2\<^sup>1\<^sup>0\<^sup>2\<^sup>4\<close> or
  more, for which Python raises \<^verbatim>\<open>OverflowError\<close>, would need a count of that size, which
  no pass over a dataset in memory yields.
\<close>

definition binary64 :: "rat \<Rightarrow> rat" where
  "binary64 x =
     (if x = 0 then 0
      else (let e = max (floor_log2 \<bar>x\<bar> - 52) (- 1074)
            in of_int (round_half_even (x / 2 powi e)) * 2 powi e))"

text \<open>
  Python's true division \<^verbatim>\<open>a / b\<close> of two ints: it raises on a zero divisor, and
  otherwise returns the float nearest to the exact quotient.
\<close>

definition truediv :: "int \<Rightarrow> int \<Rightarrow> error + rat" where
  "truediv a b =
     (if b = 0 then Inl ZeroDivisionError else Inr (binary64 (of_int a / of_int b)))"

section \<open>The collaborators from torch\<close>

text \<open>
  The network and the optimiser live in torch and in the model module. They are taken as
  parameters: \<open>forward\<close> is \<^verbatim>\<open>self.model(x, y).view(-1)\<close> for the model's parameters and its
  train/eval flag, one score per pair of the two batches; \<open>train_batch\<close> is one pass of
  lines 49 to 59 (zero the gradients, the two forward passes, the two binary cross
  entropies, their sum, backward, optimiser step) as torch computes it; \<open>adam\<close> is
  \<^verbatim>\<open>torch.optim.Adam(parameters, lr, weight_decay)\<close>. Scores are finite floats, read as
  the rationals they denote, so that the comparisons with \<^verbatim>\<open>0.5\<close> are exact.
\<close>

record ('p, 'o, 'b) torch =
  forward :: "'p \<Rightarrow> bool \<Rightarrow> 'b \<Rightarrow> 'b \<Rightarrow> rat list"
  train_batch :: "'p \<Rightarrow> 'o \<Rightarrow> 'b \<times> 'b \<times> 'b \<Rightarrow> 'p \<times> 'o"
  adam :: "'p \<Rightarrow> rat \<Rightarrow> rat \<Rightarrow> 'o"

section \<open>The runner's configuration\<close>

text \<open>
  \<^verbatim>\<open>self.conf['dis_param']\<close>. \<^verbatim>\<open>model_type\<close> may be \<^verbatim>\<open>None\<close> (line 109 asks); the key
  \<^verbatim>\<open>in_dim\<close> is absent until \<^verbatim>\<open>_get_dataset\<close> stores it.
\<close>

record dis_param =
  model_type :: "string option"
  num_layers :: int
  hidden :: int
  pool_type :: string
  fuse_type :: string
  in_dim :: "int option"

text \<open>
  A \<^verbatim>\<open>TripleSet\<close> as the runner builds it: the base dataset it wraps and the optional
  transform, which is \<^verbatim>\<open>DegreeTrans(dataset)\<close> when there is one.
\<close>

datatype 'g transform = DegreeTrans "'g list"

record 'g tripleset =
  base :: "'g list"
  transform :: "'g transform option"

datatype device = Cuda | Cpu

text \<open>The attributes of a constructed runner, the model apart (it is part of the state).\<close>

record 'g runner =
  max_num_epochs :: int
  batch_size :: int
  start_lr :: rat
  dis :: dis_param
  train_set :: "'g tripleset"
  val_set :: "'g tripleset"
  device :: device
  data_name :: string

section \<open>The state the runner works on\<close>

text \<open>
  A line of text as the runner prints or writes it. The rendering of the values by
  \<^verbatim>\<open>str.format\<close> is not modelled: a line is kept as its format and its arguments.
  \<open>PathLine\<close> is \<^verbatim>\<open>print(out_path)\<close>, \<open>HeaderLine\<close> the line written once at the start
  with the dataset name and the model parameters, \<open>EpochLine\<close> the record of one epoch.
\<close>

datatype line =
    PathLine string
  | HeaderLine string dis_param
  | EpochLine nat rat rat rat

text \<open>
  A file is the sequence of what was written to it: lines appended in text mode, or the
  pickled parameters that \<^verbatim>\<open>torch.save\<close> leaves.
\<close>

datatype 'p chunk = Line line | Pickle 'p

text \<open>
  What the calls of the runner can change: the parameters of \<^verbatim>\<open>self.model\<close> and its
  train/eval flag, the directories and the files on disk, and standard output.
  Directories and files are kept under the path strings that the runner builds.
\<close>

record 'p world =
  params :: 'p
  training :: bool
  dirs :: "string set"
  files :: "string \<rightharpoonup> 'p chunk list"
  stdout :: "line list"

text \<open>
  A \<^verbatim>\<open>DataLoader\<close> as one iteration sees it: \<^verbatim>\<open>len(loader.dataset)\<close> and the batches that the
  iteration yields, each a triple of an anchor batch, a positive batch and a negative
  batch.
\<close>

record 'b loader =
  dataset_len :: nat
  batches :: "('b \<times> 'b \<times> 'b) list"

section \<open>\<^verbatim>\<open>RunnerDiscriminator.test\<close>\<close>

text \<open>\<^verbatim>\<open>pred.sum().item()\<close> for \<^verbatim>\<open>pred = (condition).long()\<close>: the number of ones.\<close>

definition pred_sum :: "bool list \<Rightarrow> int" where
  "pred_sum pred = sum_list (map (\<lambda>b. if b then 1 else 0) pred)"

text \<open>The body of the loop of \<^verbatim>\<open>test\<close>, lines 68 to 79, on the three counters.\<close>

fun test_batch ::
  "('b \<Rightarrow> 'b \<Rightarrow> rat list) \<Rightarrow> int \<times> int \<times> int \<Rightarrow> 'b \<times> 'b \<times> 'b \<Rightarrow> int \<times> int \<times> int" where
  "test_batch model (num_correct, num_pos_correct, num_neg_correct)
      (anchor_data, pos_data, neg_data) =
     (let output = model anchor_data pos_data;
          pred = map (\<lambda>s. 1 / 2 < s) output;
          num_correct = num_correct + pred_sum pred;
          num_pos_correct = num_pos_correct + pred_sum pred;
          output = model anchor_data neg_data;
          pred = map (\<lambda>s. s < 1 / 2) output;
          num_correct = num_correct + pred_sum pred;
          num_neg_correct = num_neg_correct + pred_sum pred
      in (num_correct, num_pos_correct, num_neg_correct))"

definition test_counts ::
  "('b \<Rightarrow> 'b \<Rightarrow> rat list) \<Rightarrow> ('b \<times> 'b \<times> 'b) list \<Rightarrow> int \<times> int \<times> int" where
  "test_counts model bs = foldl (test_batch model) (0, 0, 0) bs"

text \<open>
  \<^verbatim>\<open>test\<close>: the model is put in eval mode, the counters are run over the batches, and the
  three quotients of line 81 are evaluated from left to right.
\<close>

definition test ::
  "('p, 'o, 'b) torch \<Rightarrow> 'b loader \<Rightarrow> 'p world \<Rightarrow> 'p world \<times> (error + rat \<times> rat \<times> rat)" where
  "test T loader w =
     (let w1 = w\<lparr>training := False\<rparr>;
          (num_correct, num_pos_correct, num_neg_correct) =
             test_counts (forward T (params w1) (training w1)) (batches loader);
          n = int (dataset_len loader)
      in (w1,
          case truediv num_correct (2 * n) of
            Inl e \<Rightarrow> Inl e
          | Inr acc \<Rightarrow>
              (case truediv num_pos_correct n of
                 Inl e \<Rightarrow> Inl e
               | Inr pos_acc \<Rightarrow>
                   (case truediv num_neg_correct n of
                      Inl e \<Rightarrow> Inl e
                    | Inr neg_acc \<Rightarrow> Inr (acc, pos_acc, neg_acc)))))"

subsection \<open>The counts in the specification's words\<close>

text \<open>
  The number of anchor-positive pairs of a pass that score strictly above one half, and
  the number of anchor-negative pairs that score strictly below it.
\<close>

definition similar_pairs :: "('b \<Rightarrow> 'b \<Rightarrow> rat list) \<Rightarrow> ('b \<times> 'b \<times> 'b) list \<Rightarrow> nat" where
  "similar_pairs model bs =
     sum_list (map (\<lambda>(a, p, n). length (filter (\<lambda>s. 1 / 2 < s) (model a p))) bs)"

definition dissimilar_pairs :: "('b \<Rightarrow> 'b \<Rightarrow> rat list) \<Rightarrow> ('b \<times> 'b \<times> 'b) list \<Rightarrow> nat" where
  "dissimilar_pairs model bs =
     sum_list (map (\<lambda>(a, p, n). length (filter (\<lambda>s. s < 1 / 2) (model a n))) bs)"


section \<open>Paths and file names\<close>

text \<open>
  \<^verbatim>\<open>os.path.join(a, b)\<close> on a POSIX system, for two components: an absolute \<open>b\<close> replaces
  \<open>a\<close>; otherwise \<open>b\<close> is appended, after a slash unless \<open>a\<close> is empty or ends with one.
\<close>

definition path_join :: "string \<Rightarrow> string \<Rightarrow> string" where
  "path_join a b =
     (if take 1 b = ''/'' then b
      else if a = [] \<or> last a = CHR ''/'' then a @ b
      else a @ ''/'' @ b)"

text \<open>\<^verbatim>\<open>str(n)\<close> for an int that is not negative: its decimal digits.\<close>

definition digit_char :: "nat \<Rightarrow> char" where
  "digit_char d = ''0123456789'' ! d"

fun str_nat :: "nat \<Rightarrow> string" where
  "str_nat n = (if n < 10 then [digit_char n] else str_nat (n div 10) @ [digit_char (n mod 10)])"

declare str_nat.simps [simp del]

text \<open>
  \<^verbatim>\<open>s.zfill(width)\<close>: zeros are put on the left up to the width, after the sign when the
  string starts with one.
\<close>

definition zfill :: "nat \<Rightarrow> string \<Rightarrow> string" where
  "zfill width s =
     (if width \<le> length s then s
      else (case s of
              [] \<Rightarrow> replicate width CHR ''0''
            | c # cs \<Rightarrow>
                if c = CHR ''+'' \<or> c = CHR ''-''
                then c # replicate (width - length s) CHR ''0'' @ cs
                else replicate (width - length s) CHR ''0'' @ s))"

text \<open>The name of the checkpoint of an epoch, line 110: \<^verbatim>\<open>'{}.pt'.format(str(epoch).zfill(4))\<close>.\<close>

definition checkpoint_name :: "nat \<Rightarrow> string" where
  "checkpoint_name epoch = zfill 4 (str_nat epoch) @ ''.pt''"


section \<open>Effects on the state\<close>

text \<open>
  Each effect returns the state it leaves and the exception it raised, if any. What can
  go wrong on disk is kept to the two cases that the paths of the runner can meet: a
  directory cannot be created where something exists, and a file cannot be opened or
  saved where a directory is. Parent directories are not tracked.
\<close>

definition print :: "'p world \<Rightarrow> line \<Rightarrow> 'p world" where
  "print w l = w\<lparr>stdout := stdout w @ [l]\<rparr>"

definition isdir :: "'p world \<Rightarrow> string \<Rightarrow> bool" where
  "isdir w path = (path \<in> dirs w)"

definition makedirs :: "'p world \<Rightarrow> string \<Rightarrow> 'p world \<times> error option" where
  "makedirs w path =
     (if path \<in> dirs w \<or> files w path \<noteq> None then (w, Some (FileExistsError path))
      else (w\<lparr>dirs := insert path (dirs w)\<rparr>, None))"

definition mkdir :: "'p world \<Rightarrow> string \<Rightarrow> 'p world \<times> error option" where
  "mkdir w path =
     (if path \<in> dirs w \<or> files w path \<noteq> None then (w, Some (FileExistsError path))
      else (w\<lparr>dirs := insert path (dirs w)\<rparr>, None))"

text \<open>\<^verbatim>\<open>f = open(path, 'a'); f.write(line); f.close()\<close>.\<close>

definition append_line :: "'p world \<Rightarrow> string \<Rightarrow> line \<Rightarrow> 'p world \<times> error option" where
  "append_line w path l =
     (if path \<in> dirs w then (w, Some (IsADirectoryError path))
      else (w\<lparr>files := (files w)
               (path \<mapsto> (case files w path of None \<Rightarrow> [] | Some cs \<Rightarrow> cs) @ [Line l])\<rparr>,
            None))"

text \<open>\<^verbatim>\<open>torch.save(self.model.state_dict(), path)\<close>: the file holds the parameters alone.\<close>

definition torch_save :: "'p world \<Rightarrow> string \<Rightarrow> 'p world \<times> error option" where
  "torch_save w path =
     (if path \<in> dirs w then (w, Some (IsADirectoryError path))
      else (w\<lparr>files := (files w)(path \<mapsto> [Pickle (params w)])\<rparr>, None))"

text \<open>Sequencing: the next effect runs unless an exception is on its way.\<close>

definition and_then ::
  "'w \<times> error option \<Rightarrow> ('w \<Rightarrow> 'w \<times> error option) \<Rightarrow> 'w \<times> error option" where
  "and_then r f = (case r of (w, Some e) \<Rightarrow> (w, Some e) | (w, None) \<Rightarrow> f w)"

section \<open>Construction: \<^verbatim>\<open>__init__\<close>, \<^verbatim>\<open>_get_dataset\<close>, \<^verbatim>\<open>_get_model\<close>\<close>

text \<open>
  What construction calls outside this file, each either raising (with a message) or
  returning: \<^verbatim>\<open>TUDataset(root, name=name)\<close>, the graphs of the named dataset;
  \<^verbatim>\<open>train_set[0][0].x.shape[1]\<close>, the feature width of the anchor of the first triple
  (\<^verbatim>\<open>TripleSet.__getitem__\<close> is in the utilities module);
  \<^verbatim>\<open>DiscriminatorModel(**dis_param)\<close>; and \<^verbatim>\<open>torch.cuda.is_available()\<close>.
\<close>

record ('g, 'p) library =
  tu_dataset :: "string \<Rightarrow> string \<Rightarrow> string + 'g list"
  first_anchor_width :: "'g tripleset \<Rightarrow> string + int"
  discriminator_model :: "dis_param \<Rightarrow> string + 'p"
  cuda_is_available :: bool

text \<open>
  The two lists of names that \<^verbatim>\<open>_get_dataset\<close> tests, lines 30 and 33: the datasets
  taken as they are, and the datasets whose graphs get degree features.
\<close>

definition plain_names :: "string list" where
  "plain_names = [''NCI1'', ''MUTAG'', ''PROTEINS'', ''NCI109'']"

definition degree_names :: "string list" where
  "degree_names = [''COLLAB'', ''IMDB-BINARY'']"

text \<open>
  \<^verbatim>\<open>_get_dataset\<close>, lines 28 to 36. The two sets are attributes that only the two
  branches assign; when neither branch is taken they stay unset, and line 36 raises
  \<^verbatim>\<open>AttributeError\<close> on reading \<^verbatim>\<open>self.train_set\<close>. The result is the two sets and the model
  parameters with \<^verbatim>\<open>in_dim\<close> stored.
\<close>

definition get_dataset ::
  "('g, 'p) library \<Rightarrow> string \<Rightarrow> string \<Rightarrow> dis_param
     \<Rightarrow> error + 'g tripleset \<times> 'g tripleset \<times> dis_param" where
  "get_dataset L data_root_path name dp =
     (case tu_dataset L data_root_path name of
        Inl msg \<Rightarrow> Inl (External msg)
      | Inr dataset \<Rightarrow>
          (let sets =
                (if name \<in> set plain_names
                 then Some (\<lparr>base = dataset, transform = None\<rparr>,
                            \<lparr>base = dataset, transform = None\<rparr>)
                 else if name \<in> set degree_names
                 then Some (\<lparr>base = dataset, transform = Some (DegreeTrans dataset)\<rparr>,
                            \<lparr>base = dataset, transform = Some (DegreeTrans dataset)\<rparr>)
                 else None)
           in case sets of
                None \<Rightarrow> Inl (AttributeError ''train_set'')
              | Some (train, val) \<Rightarrow>
                  (case first_anchor_width L train of
                     Inl msg \<Rightarrow> Inl (External msg)
                   | Inr d \<Rightarrow> Inr (train, val, dp\<lparr>in_dim := Some d\<rparr>))))"

text \<open>\<^verbatim>\<open>__init__\<close>, lines 14 to 25: the runner and the model it holds.\<close>

definition init ::
  "('g, 'p) library \<Rightarrow> string \<Rightarrow> string \<Rightarrow> int \<Rightarrow> int \<Rightarrow> rat \<Rightarrow> string option \<Rightarrow> int \<Rightarrow> int
     \<Rightarrow> string \<Rightarrow> string \<Rightarrow> error + 'g runner \<times> 'p" where
  "init L data_root_path name max_epochs batch start_lr0 mtype layers hid pool fuse =
     (let dp = \<lparr>model_type = mtype, num_layers = layers, hidden = hid,
                 pool_type = pool, fuse_type = fuse, in_dim = None\<rparr>
      in case get_dataset L data_root_path name dp of
           Inl e \<Rightarrow> Inl e
         | Inr (train, val, dp') \<Rightarrow>
             (case discriminator_model L dp' of
                Inl msg \<Rightarrow> Inl (External msg)
              | Inr m \<Rightarrow>
                  Inr (\<lparr>max_num_epochs = max_epochs, batch_size = batch, start_lr = start_lr0,
                        dis = dp', train_set = train, val_set = val,
                        device = (if cuda_is_available L then Cuda else Cpu),
                        data_name = name\<rparr>, m)))"

section \<open>\<^verbatim>\<open>_train_epoch\<close> and \<^verbatim>\<open>train_test\<close>\<close>

text \<open>
  The two loaders of lines 102 and 103, \<^verbatim>\<open>DataLoader(self.train_set, batch_size, ...)\<close> and
  \<^verbatim>\<open>DataLoader(self.val_set, batch_size, ...)\<close>: the batches that the iteration of an epoch
  yields, for the triple set and the batch size the loader was built with. Both loaders
  shuffle, and the triples are sampled at random, so each epoch has its own.
\<close>

record ('g, 'b) passes =
  train_pass :: "'g tripleset \<Rightarrow> int \<Rightarrow> nat \<Rightarrow> ('b \<times> 'b \<times> 'b) list"
  val_pass :: "'g tripleset \<Rightarrow> int \<Rightarrow> nat \<Rightarrow> ('b \<times> 'b \<times> 'b) list"

definition train_epoch ::
  "('p, 'o, 'b) torch \<Rightarrow> ('b \<times> 'b \<times> 'b) list \<Rightarrow> 'o \<Rightarrow> 'p world \<Rightarrow> 'p world \<times> 'o" where
  "train_epoch T loader optimizer w =
     (let w1 = w\<lparr>training := True\<rparr>;
          (p, optimizer') =
             foldl (\<lambda>(p, opt) data_batch. train_batch T p opt data_batch)
               (params w1, optimizer) loader
      in (w1\<lparr>params := p\<rparr>, optimizer'))"

text \<open>Line 109: whether the parameters are saved after an epoch.\<close>

definition saves_checkpoint :: "'g runner \<Rightarrow> int \<Rightarrow> nat \<Rightarrow> bool" where
  "saves_checkpoint self num_save epoch =
     (model_type (dis self) \<noteq> None \<and> int epoch > max_num_epochs self - num_save)"

text \<open>
  Modelled from the spec: \<^verbatim>\<open>TripleSet.__len__\<close> is in the utilities module; a triple set
  over a dataset of size N yields N triples per pass, one per anchor, so its length is
  the length of its base dataset.
\<close>

definition tripleset_len :: "'g tripleset \<Rightarrow> nat" where
  "tripleset_len ts = length (base ts)"

text \<open>The body of the loop of \<^verbatim>\<open>train_test\<close>, lines 108 to 116, for one epoch.\<close>

definition run_epoch ::
  "('p, 'o, 'b) torch \<Rightarrow> ('g, 'b) passes \<Rightarrow> 'g runner \<Rightarrow> int \<Rightarrow> string \<Rightarrow> string \<Rightarrow> nat \<Rightarrow> 'o
     \<Rightarrow> 'p world \<Rightarrow> ('p world \<times> error option) \<times> 'o" where
  "run_epoch T D self num_save model_dir log_path epoch optimizer w =
     (let (w, optimizer) =
            train_epoch T (train_pass D (train_set self) (batch_size self) epoch) optimizer w
      in (and_then
            (if saves_checkpoint self num_save epoch
             then torch_save w (path_join model_dir (checkpoint_name epoch))
             else (w, None))
            (\<lambda>w. case test T \<lparr>dataset_len = tripleset_len (val_set self),
                               batches = val_pass D (val_set self) (batch_size self) epoch\<rparr>
                         w of
                    (w, Inl e) \<Rightarrow> (w, Some e)
                  | (w, Inr (val_acc, val_pos_acc, val_neg_acc)) \<Rightarrow>
                      append_line (print w (EpochLine epoch val_acc val_pos_acc val_neg_acc))
                        log_path (EpochLine epoch val_acc val_pos_acc val_neg_acc)),
          optimizer))"

text \<open>A \<^verbatim>\<open>for\<close> loop over the epochs: an exception ends it.\<close>

fun for_epochs ::
  "(nat \<Rightarrow> 'o \<Rightarrow> 'w \<Rightarrow> ('w \<times> error option) \<times> 'o) \<Rightarrow> nat list \<Rightarrow> 'o \<Rightarrow> 'w \<Rightarrow> 'w \<times> error option" where
  "for_epochs body [] optimizer w = (w, None)"
| "for_epochs body (epoch # rest) optimizer w =
     (case body epoch optimizer w of
        ((w', Some e), _) \<Rightarrow> (w', Some e)
      | ((w', None), optimizer') \<Rightarrow> for_epochs body rest optimizer' w')"

text \<open>
  \<^verbatim>\<open>train_test\<close>, lines 84 to 116. Moving the model and the batches to the device
  changes no value. Joining \<^verbatim>\<open>out_path\<close> with a model type that is \<^verbatim>\<open>None\<close> raises
  \<^verbatim>\<open>TypeError\<close>. The weight decay is the float literal \<^verbatim>\<open>1e-4\<close>.
\<close>

definition train_test ::
  "('p, 'o, 'b) torch \<Rightarrow> ('g, 'b) passes \<Rightarrow> 'g runner \<Rightarrow> string \<Rightarrow> int \<Rightarrow> string
     \<Rightarrow> 'p world \<Rightarrow> 'p world \<times> error option" where
  "train_test T D self out_root_path num_save file_name w =
     (let out_path = path_join out_root_path (data_name self)
      in and_then
           (if \<not> isdir w out_path then makedirs (print w (PathLine out_path)) out_path
            else (w, None))
           (\<lambda>w. case model_type (dis self) of
                   None \<Rightarrow> (w, Some TypeError)
                 | Some model_dir_name \<Rightarrow>
                     (let model_dir = path_join out_path model_dir_name
                      in and_then
                           (if \<not> isdir w model_dir then mkdir w model_dir else (w, None))
                           (\<lambda>w. and_then
                                  (append_line w (path_join out_path file_name)
                                     (HeaderLine (data_name self) (dis self)))
                                  (\<lambda>w. for_epochs
                                         (run_epoch T D self num_save model_dir
                                            (path_join out_path file_name))
                                         [0 ..< nat (max_num_epochs self)]
                                         (adam T (params w) (start_lr self) (1 / 10000))
                                         w)))))"

section \<open>The triples of a pass\<close>

text \<open>
  Modelled from the spec: \<^verbatim>\<open>TripleSet\<close> is in the utilities module. For each anchor the
  positive is another graph of the dataset with the anchor's label and the negative a
  graph of the dataset with a different label; a full pass has every graph of the
  dataset as an anchor exactly once. A batch is the list of its anchors, the list of
  its positives and the list of its negatives, in the same order.
\<close>

definition valid_triples ::
  "('g \<Rightarrow> 'l) \<Rightarrow> 'g list \<Rightarrow> 'g list \<times> 'g list \<times> 'g list \<Rightarrow> bool" where
  "valid_triples label_of ds b =
     (case b of (anchors, positives, negatives) \<Rightarrow>
        length positives = length anchors \<and> length negatives = length anchors \<and>
        list_all (\<lambda>(a, p). p \<in> set ds \<and> label_of p = label_of a \<and> p \<noteq> a)
          (zip anchors positives) \<and>
        list_all (\<lambda>(a, n). n \<in> set ds \<and> label_of n \<noteq> label_of a)
          (zip anchors negatives))"

definition valid_pass ::
  "('g \<Rightarrow> 'l) \<Rightarrow> 'g list \<Rightarrow> ('g list \<times> 'g list \<times> 'g list) list \<Rightarrow> bool" where
  "valid_pass label_of ds bs =
     (list_all (valid_triples label_of ds) bs \<and> mset (concat (map fst bs)) = mset ds)"

section \<open>A toy instance\<close>

text \<open>
  Four graphs with the labels A, A, B, B, each graph an index with its label; a batch of
  graphs is a list of them. One pass of a loader with batch size 32 over the triples of
  this dataset is a single batch of four triples, the positive of each anchor the other
  graph of its label and the negative a graph of the other label.
\<close>

datatype label = A | B

type_synonym toy_graph = "nat \<times> label"

definition toy_dataset :: "toy_graph list" where
  "toy_dataset = [(0, A), (1, A), (2, B), (3, B)]"

definition toy_loader :: "toy_graph list loader" where
  "toy_loader =
     \<lparr>dataset_len = length toy_dataset,
      batches = [([(0, A), (1, A), (2, B), (3, B)],
                  [(1, A), (0, A), (3, B), (2, B)],
                  [(2, B), (3, B), (0, A), (1, A)])]\<rparr>"

text \<open>A model that scores every pair one half, whatever its parameters.\<close>

definition half_torch :: "(unit, unit, toy_graph list) torch" where
  "half_torch =
     \<lparr>forward = (\<lambda>_ _ xs ys. map (\<lambda>_. 1 / 2) (zip xs ys)),
      train_batch = (\<lambda>p opt _. (p, opt)),
      adam = (\<lambda>_ _ _. ())\<rparr>"

text \<open>A model that scores a pair 1 when the labels agree and 0 when they differ.\<close>

definition label_score :: "toy_graph \<times> toy_graph \<Rightarrow> rat" where
  "label_score = (\<lambda>(x, y). if snd x = snd y then 1 else 0)"

definition label_torch :: "(unit, unit, toy_graph list) torch" where
  "label_torch =
     \<lparr>forward = (\<lambda>_ _ xs ys. map label_score (zip xs ys)),
      train_batch = (\<lambda>p opt _. (p, opt)),
      adam = (\<lambda>_ _ _. ())\<rparr>"

definition toy_world :: "unit world" where
  "toy_world = \<lparr>params = (), training = True, dirs = {}, files = Map.empty, stdout = []\<rparr>"

text \<open>
  A library whose loader returns the toy dataset for every name, and a model whose only
  parameter counts the training batches it has seen.
\<close>

definition toy_library :: "(toy_graph, unit) library" where
  "toy_library =
     \<lparr>tu_dataset = (\<lambda>_ _. Inr toy_dataset),
      first_anchor_width = (\<lambda>_. Inr 7),
      discriminator_model = (\<lambda>_. Inr ()),
      cuda_is_available = False\<rparr>"

definition count_torch :: "(nat, unit, toy_graph list) torch" where
  "count_torch =
     \<lparr>forward = (\<lambda>_ _ xs ys. map label_score (zip xs ys)),
      train_batch = (\<lambda>p opt _. (Suc p, opt)),
      adam = (\<lambda>_ _ _. ())\<rparr>"

text \<open>Loaders that yield the one batch of the toy loader in every epoch.\<close>

definition toy_passes :: "(toy_graph, toy_graph list) passes" where
  "toy_passes =
     \<lparr>train_pass = (\<lambda>_ _ _. batches toy_loader), val_pass = (\<lambda>_ _ _. batches toy_loader)\<rparr>"

text \<open>A runner over the toy dataset with the default hyperparameters and \<open>n\<close> epochs.\<close>

definition toy_runner :: "int \<Rightarrow> toy_graph runner" where
  "toy_runner n =
     \<lparr>max_num_epochs = n, batch_size = 32, start_lr = 1 / 10000,
      dis = \<lparr>model_type = Some ''gmnet'', num_layers = 6, hidden = 256,
              pool_type = ''sum'', fuse_type = ''abs_diff'', in_dim = Some 7\<rparr>,
      train_set = \<lparr>base = toy_dataset, transform = None\<rparr>,
      val_set = \<lparr>base = toy_dataset, transform = None\<rparr>,
      device = Cpu, data_name = ''MUTAG''\<rparr>"

definition empty_disk :: "nat world" where
  "empty_disk = \<lparr>params = 0, training = False, dirs = {}, files = Map.empty, stdout = []\<rparr>"

text \<open>
  Ten graphs, five of each label, and one pass over them in a single batch. The model
  scores a pair by its second graph alone: 1 when that is graph 0, 0 when it is graph
  9, and one half otherwise. On this pass it is right about one anchor-positive pair
  and about two anchor-negative pairs.
\<close>

definition ten_dataset :: "toy_graph list" where
  "ten_dataset =
     [(0, A), (1, A), (2, A), (3, A), (4, A), (5, B), (6, B), (7, B), (8, B), (9, B)]"

definition ten_loader :: "toy_graph list loader" where
  "ten_loader =
     \<lparr>dataset_len = length ten_dataset,
      batches =
        [([(0, A), (1, A), (2, A), (3, A), (4, A), (5, B), (6, B), (7, B), (8, B), (9, B)],
          [(1, A), (0, A), (1, A), (1, A), (1, A), (6, B), (5, B), (5, B), (5, B), (5, B)],
          [(9, B), (9, B), (5, B), (5, B), (5, B), (1, A), (1, A), (1, A), (1, A), (1, A)])]\<rparr>"

definition marked_score :: "toy_graph \<times> toy_graph \<Rightarrow> rat" where
  "marked_score = (\<lambda>(x, y). if fst y = 0 then 1 else if fst y = 9 then 0 else 1 / 2)"

definition marked_torch :: "(unit, unit, toy_graph list) torch" where
  "marked_torch =
     \<lparr>forward = (\<lambda>_ _ xs ys. map marked_score (zip xs ys)),
      train_batch = (\<lambda>p opt _. (p, opt)),
      adam = (\<lambda>_ _ _. ())\<rparr>"

section \<open>Properties of the rounding to a float\<close>

lemma floor_log2_bounds:
  assumes "0 < x"
  shows "2 powi floor_log2 x \<le> x" and "x < 2 powi (floor_log2 x + 1)"
proof -
  obtain a b where q: "quotient_of x = (a, b)" by (cases "quotient_of x")
  then have b: "0 < b" by (rule quotient_of_denom_pos)
  have x: "x = of_int a / of_int b" using q by (rule quotient_of_div)
  with assms b have a: "0 < a" by (simp add: zero_less_divide_iff)
  let ?d = "bitlen a - bitlen b"
  have la: "1 \<le> bitlen a" and lb: "1 \<le> bitlen b"
    using a b by (simp_all add: bitlen_alt_def)
  have bnd: "(2::rat) powi (bitlen k - 1) \<le> of_int k \<and> of_int k < (2::rat) powi bitlen k"
    if k: "0 < k" for k :: int
  proof -
    from k have l: "1 \<le> bitlen k" by (simp add: bitlen_alt_def)
    from bitlen_bounds [OF k]
    have "(of_int (2 ^ nat (bitlen k - 1)) :: rat) \<le> of_int k"
      and "(of_int k :: rat) < of_int (2 ^ nat (bitlen k))"
      by (simp_all only: of_int_le_iff of_int_less_iff)
    then show ?thesis using l by (simp add: power_int_def)
  qed
  note A = bnd [OF a, THEN conjunct1] bnd [OF a, THEN conjunct2]
  note B = bnd [OF b, THEN conjunct1] bnd [OF b, THEN conjunct2]
  have lower: "(2::rat) powi (?d - 1) \<le> x"
  proof -
    have "(2::rat) powi (?d - 1) * of_int b \<le> 2 powi (?d - 1) * 2 powi bitlen b"
      using B(2) by (simp add: mult_left_mono)
    also have "\<dots> = 2 powi (bitlen a - 1)"
      by (simp flip: power_int_add)
    also have "\<dots> \<le> of_int a" by (rule A(1))
    finally show ?thesis using b by (simp add: x pos_le_divide_eq)
  qed
  have upper: "x < (2::rat) powi (?d + 1)"
  proof -
    have "of_int a < (2::rat) powi bitlen a" by (rule A(2))
    also have "\<dots> = 2 powi (?d + 1) * 2 powi (bitlen b - 1)"
      by (simp flip: power_int_add)
    also have "\<dots> \<le> 2 powi (?d + 1) * of_int b"
      using B(1) by (simp add: mult_left_mono)
    finally show ?thesis using b by (simp add: x pos_divide_less_eq)
  qed
  have fl: "floor_log2 x = (if 2 powi ?d \<le> x then ?d else ?d - 1)"
    by (simp add: floor_log2_def q)
  show "2 powi floor_log2 x \<le> x"
    using lower by (simp add: fl)
  show "x < 2 powi (floor_log2 x + 1)"
    using upper by (auto simp: fl not_le)
qed

lemma round_half_even_near: "\<bar>of_int (round_half_even x) - x\<bar> \<le> 1 / 2"
proof -
  have "of_int \<lfloor>x\<rfloor> \<le> x" and "x < of_int \<lfloor>x\<rfloor> + 1"
    by linarith+
  then show ?thesis
    unfolding round_half_even_def Let_def by (auto simp: abs_le_iff)
qed

lemma binary64_zero: "binary64 0 = 0"
  by (simp add: binary64_def)

lemma binary64_one: "binary64 1 = 1"
  by code_simp

lemma binary64_error:
  "\<bar>binary64 x - x\<bar> \<le> 2 powi (max (floor_log2 \<bar>x\<bar> - 52) (- 1074)) / 2"
proof (cases "x = 0")
  case True
  then show ?thesis by (simp add: binary64_def)
next
  case False
  let ?e = "max (floor_log2 \<bar>x\<bar> - 52) (- 1074)"
  let ?u = "(2::rat) powi ?e"
  have u: "0 < ?u" by simp
  have "binary64 x - x = (of_int (round_half_even (x / ?u)) - x / ?u) * ?u"
    using False u by (simp add: binary64_def Let_def left_diff_distrib)
  then have "\<bar>binary64 x - x\<bar> = \<bar>of_int (round_half_even (x / ?u)) - x / ?u\<bar> * ?u"
    using u by (simp add: abs_mult)
  also have "\<dots> \<le> (1 / 2) * ?u"
    using round_half_even_near [of "x / ?u"] u by (intro mult_right_mono) simp_all
  finally show ?thesis by simp
qed

lemma binary64_relative:
  assumes "2 powi (- 1022) \<le> \<bar>x\<bar>"
  shows "\<bar>binary64 x - x\<bar> \<le> \<bar>x\<bar> / 2 ^ 53"
proof -
  have pos: "0 < \<bar>x\<bar>"
    using assms by (smt (verit) zero_less_power_int zero_less_numeral order_less_le_trans)
  let ?l = "floor_log2 \<bar>x\<bar>"
  have "(2::rat) powi (- 1022) < 2 powi (?l + 1)"
    using assms floor_log2_bounds(2) [OF pos] by linarith
  then have "- 1022 < ?l + 1"
    using power_int_increasing [of "?l + 1" "- 1022" "2::rat"] by (cases "- 1022 < ?l + 1") auto
  then have e: "max (?l - 52) (- 1074) = ?l - 52" by simp
  have "\<bar>binary64 x - x\<bar> \<le> 2 powi (?l - 52) / 2"
    using binary64_error [of x] by (simp only: e)
  also have "\<dots> = 2 powi ?l / 2 ^ 53"
    by (simp add: power_int_diff)
  also have "\<dots> \<le> \<bar>x\<bar> / 2 ^ 53"
    using floor_log2_bounds(1) [OF pos] by (simp add: divide_right_mono)
  finally show ?thesis .
qed

section \<open>Properties of \<^verbatim>\<open>test\<close>\<close>

lemma pred_sum_filter: "pred_sum (map P xs) = int (length (filter P xs))"
  by (induction xs) (simp_all add: pred_sum_def)

lemma test_batch_counts:
  "test_batch model (c, pc, nc) (a, p, n) =
     (c + int (length (filter (\<lambda>s. 1 / 2 < s) (model a p)))
        + int (length (filter (\<lambda>s. s < 1 / 2) (model a n))),
      pc + int (length (filter (\<lambda>s. 1 / 2 < s) (model a p))),
      nc + int (length (filter (\<lambda>s. s < 1 / 2) (model a n))))"
  by (simp only: test_batch.simps Let_def pred_sum_filter)

lemma similar_pairs_Cons:
  "similar_pairs model ((a, p, n) # bs) =
     length (filter (\<lambda>s. 1 / 2 < s) (model a p)) + similar_pairs model bs"
  by (simp only: similar_pairs_def list.map sum_list.Cons prod.case)

lemma dissimilar_pairs_Cons:
  "dissimilar_pairs model ((a, p, n) # bs) =
     length (filter (\<lambda>s. s < 1 / 2) (model a n)) + dissimilar_pairs model bs"
  by (simp only: dissimilar_pairs_def list.map sum_list.Cons prod.case)

lemma test_loop_counts:
  "foldl (test_batch model) (c, pc, nc) bs =
     (c + int (similar_pairs model bs) + int (dissimilar_pairs model bs),
      pc + int (similar_pairs model bs),
      nc + int (dissimilar_pairs model bs))"
proof (induction bs arbitrary: c pc nc)
  case Nil
  show ?case by (simp add: similar_pairs_def dissimilar_pairs_def)
next
  case (Cons b bs)
  obtain a p n where b: "b = (a, p, n)" by (cases b)
  have "foldl (test_batch model) (c, pc, nc) (b # bs) =
        foldl (test_batch model) (test_batch model (c, pc, nc) (a, p, n)) bs"
    by (simp only: b foldl_Cons)
  also have "\<dots> = (c + int (similar_pairs model (b # bs)) + int (dissimilar_pairs model (b # bs)),
      pc + int (similar_pairs model (b # bs)),
      nc + int (dissimilar_pairs model (b # bs)))"
    unfolding test_batch_counts Cons.IH b similar_pairs_Cons dissimilar_pairs_Cons
    by (simp only: of_nat_add prod.inject) linarith
  finally show ?case .
qed

lemma test_counts_eq:
  "test_counts model bs =
     (int (similar_pairs model bs) + int (dissimilar_pairs model bs),
      int (similar_pairs model bs), int (dissimilar_pairs model bs))"
  by (simp add: test_counts_def test_loop_counts)

lemma snd_test:
  "snd (test T loader w) =
     (if dataset_len loader = 0 then Inl ZeroDivisionError
      else Inr (binary64
                  (of_nat (similar_pairs (forward T (params w) False) (batches loader)
                     + dissimilar_pairs (forward T (params w) False) (batches loader))
                     / of_nat (2 * dataset_len loader)),
                binary64
                  (of_nat (similar_pairs (forward T (params w) False) (batches loader))
                     / of_nat (dataset_len loader)),
                binary64
                  (of_nat (dissimilar_pairs (forward T (params w) False) (batches loader))
                     / of_nat (dataset_len loader))))"
  by (simp add: test_def test_counts_eq truediv_def)

text \<open>
  C2. On a validation set of size N, \<^verbatim>\<open>test\<close> returns the triple whose overall accuracy
  is the number of anchor-positive pairs scoring strictly above 0.5 plus the number of
  anchor-negative pairs scoring strictly below 0.5, divided by 2 N, and whose positive
  and negative accuracies are the two counts, each divided by N. Each division is
  Python's division of two ints, which returns the float nearest to the quotient. The
  quotients exist for N above 0; for N = 0 the first division raises
  \<^verbatim>\<open>ZeroDivisionError\<close>.
\<close>

theorem test_accuracy_triple:
  "snd (test T loader w) =
     (let model = forward T (params w) False;
          N = dataset_len loader;
          pos_correct = similar_pairs model (batches loader);
          neg_correct = dissimilar_pairs model (batches loader)
      in if N = 0 then Inl ZeroDivisionError
         else Inr (binary64 (of_nat (pos_correct + neg_correct) / of_nat (2 * N)),
                   binary64 (of_nat pos_correct / of_nat N),
                   binary64 (of_nat neg_correct / of_nat N)))"
  unfolding Let_def by (rule snd_test)

lemma sum_list_all_zero:
  "(\<And>x. x \<in> set xs \<Longrightarrow> f x = (0::nat)) \<Longrightarrow> sum_list (map f xs) = 0"
  by (induction xs) simp_all

lemma no_pairs_at_half:
  assumes "\<forall>s \<in> set xs. s = (1 / 2 :: rat)"
  shows "filter (\<lambda>s. 1 / 2 < s) xs = []" and "filter (\<lambda>s. s < 1 / 2) xs = []"
  using assms by (induction xs) simp_all

text \<open>
  C3. On a non-empty validation set, when the model scores every pair of the pass
  exactly 0.5, \<^verbatim>\<open>test\<close> returns overall accuracy 0 (and the two other accuracies 0 as
  well): neither \<^verbatim>\<open>> 0.5\<close> nor \<^verbatim>\<open>< 0.5\<close> holds of such a score.
\<close>

theorem test_threshold_boundary:
  assumes nonempty: "0 < dataset_len loader"
    and half: "\<forall>(a, p, n) \<in> set (batches loader).
                 (\<forall>s \<in> set (forward T (params w) False a p). s = 1 / 2) \<and>
                 (\<forall>s \<in> set (forward T (params w) False a n). s = 1 / 2)"
  shows "snd (test T loader w) = Inr (0, 0, 0)"
proof -
  let ?m = "forward T (params w) False"
  have sim: "similar_pairs ?m (batches loader) = 0"
    unfolding similar_pairs_def
  proof (rule sum_list_all_zero)
    fix b assume b: "b \<in> set (batches loader)"
    obtain a p n where eq: "b = (a, p, n)" by (cases b)
    from half b have "\<forall>s \<in> set (?m a p). s = 1 / 2"
      unfolding eq by blast
    then have "filter (\<lambda>s. 1 / 2 < s) (?m a p) = []"
      by (rule no_pairs_at_half(1))
    then show "(case b of (a, p, n) \<Rightarrow> length (filter (\<lambda>s. 1 / 2 < s) (?m a p))) = 0"
      unfolding eq by (simp only: prod.case list.size)
  qed
  have dis: "dissimilar_pairs ?m (batches loader) = 0"
    unfolding dissimilar_pairs_def
  proof (rule sum_list_all_zero)
    fix b assume b: "b \<in> set (batches loader)"
    obtain a p n where eq: "b = (a, p, n)" by (cases b)
    from half b have "\<forall>s \<in> set (?m a n). s = 1 / 2"
      unfolding eq by blast
    then have "filter (\<lambda>s. s < 1 / 2) (?m a n) = []"
      by (rule no_pairs_at_half(2))
    then show "(case b of (a, p, n) \<Rightarrow> length (filter (\<lambda>s. s < 1 / 2) (?m a n))) = 0"
      unfolding eq by (simp only: prod.case list.size)
  qed
  from nonempty show ?thesis
    by (simp add: snd_test sim dis binary64_zero)
qed

theorem test_threshold_boundary_witness:
  "0 < dataset_len toy_loader \<and> snd (test half_torch toy_loader toy_world) = Inr (0, 0, 0)"
proof -
  have n: "0 < dataset_len toy_loader"
    by (simp add: toy_loader_def toy_dataset_def)
  have h: "\<forall>(a, p, n) \<in> set (batches toy_loader).
             (\<forall>s \<in> set (forward half_torch (params toy_world) False a p). s = 1 / 2) \<and>
             (\<forall>s \<in> set (forward half_torch (params toy_world) False a n). s = 1 / 2)"
    by (simp add: toy_loader_def half_torch_def)
  from n test_threshold_boundary [OF n h] show ?thesis by simp
qed

lemma quotient_lower:
  fixes k d :: nat
  assumes "0 < k" and "0 < d" and "(of_nat d :: rat) \<le> 2 ^ e"
  shows "1 / 2 ^ e \<le> (of_nat k / of_nat d :: rat)"
proof -
  have "(1::rat) / 2 ^ e \<le> 1 / of_nat d"
    using assms(2,3) by (intro divide_left_mono) simp_all
  also have "\<dots> \<le> of_nat k / of_nat d"
    using assms(1,2) by (simp add: divide_right_mono)
  finally show ?thesis .
qed

lemma binary64_quotient_error:
  fixes k d :: nat
  assumes "0 < d" and "d \<le> 2 ^ 1022"
  shows "\<bar>binary64 (of_nat k / of_nat d) - of_nat k / of_nat d\<bar>
           \<le> (of_nat k / of_nat d) / 2 ^ 53"
proof (cases "k = 0")
  case True
  then show ?thesis by (simp add: binary64_zero)
next
  case False
  let ?x = "of_nat k / of_nat d :: rat"
  have d: "(of_nat d :: rat) \<le> 2 ^ 1022"
    using assms(2) by (metis of_nat_le_iff of_nat_numeral of_nat_power)
  have "(1::rat) / 2 ^ 1022 \<le> ?x"
    using False assms(1) d by (intro quotient_lower) simp_all
  moreover have "(2::rat) powi (- 1022) = 1 / 2 ^ 1022"
    by (simp only: power_int_minus power_int_numeral inverse_eq_divide)
  moreover have "0 \<le> ?x" by simp
  ultimately have low: "2 powi (- 1022) \<le> \<bar>?x\<bar>"
    by (simp only: abs_of_nonneg)
  from binary64_relative [OF low] \<open>0 \<le> ?x\<close> show ?thesis
    by (simp only: abs_of_nonneg)
qed

lemma double_bound:
  fixes N :: nat
  assumes "N \<le> 2 ^ 1021"
  shows "2 * N \<le> 2 ^ 1022" and "N \<le> 2 ^ 1022"
proof -
  have e: "(2::nat) ^ 1022 = 2 * 2 ^ 1021"
    by (metis power_Suc eval_nat_numeral(3) Suc_numeral semiring_norm(5) semiring_norm(2) semiring_norm(8))
  show "2 * N \<le> 2 ^ 1022" using assms unfolding e by linarith
  then show "N \<le> 2 ^ 1022" by linarith
qed

lemma mean_error_linear:
  fixes bm bp bn m p n em ep en :: rat
  assumes "m = (p + n) / 2" and "em = (ep + en) / 2"
    and "\<bar>bm - m\<bar> \<le> em" and "\<bar>bp - p\<bar> \<le> ep" and "\<bar>bn - n\<bar> \<le> en"
  shows "\<bar>bm - (bp + bn) / 2\<bar> \<le> 2 * em"
proof -
  have "bm - (p + n) / 2 \<le> (ep + en) / 2" "(p + n) / 2 - bm \<le> (ep + en) / 2"
    using abs_le_D1 [OF assms(3)] abs_le_D2 [OF assms(3)] unfolding assms(1,2) by simp_all
  moreover have "bp - p \<le> ep" "p - bp \<le> ep"
    using abs_le_D1 [OF assms(4)] abs_le_D2 [OF assms(4)] by simp_all
  moreover have "bn - n \<le> en" "n - bn \<le> en"
    using abs_le_D1 [OF assms(5)] abs_le_D2 [OF assms(5)] by simp_all
  ultimately have "bm - (bp + bn) / 2 \<le> 2 * ((ep + en) / 2)"
    and "(bp + bn) / 2 - bm \<le> 2 * ((ep + en) / 2)"
    by (simp_all add: field_simps)
  then show ?thesis unfolding assms(2) by (intro abs_leI) simp_all
qed

lemma mean_error:
  fixes bm bp bn m p n :: rat
  assumes "m = (p + n) / 2"
    and "\<bar>bm - m\<bar> \<le> m / 2 ^ 53" and "\<bar>bp - p\<bar> \<le> p / 2 ^ 53" and "\<bar>bn - n\<bar> \<le> n / 2 ^ 53"
  shows "\<bar>bm - (bp + bn) / 2\<bar> \<le> m / 2 ^ 52"
proof -
  have "m / 2 ^ 53 = (p / 2 ^ 53 + n / 2 ^ 53) / 2"
    unfolding assms(1) by (simp only: add_divide_distrib divide_divide_eq_left mult.commute)
  from mean_error_linear [OF assms(1) this assms(2-4)]
  have "\<bar>bm - (bp + bn) / 2\<bar> \<le> 2 * (m / 2 ^ 53)" .
  also have "2 * (m / 2 ^ 53) = m / 2 ^ 52"
  proof -
    have "(2::rat) ^ 53 = 2 * 2 ^ 52"
      by (metis power_Suc eval_nat_numeral(3) Suc_numeral semiring_norm(5) semiring_norm(2) semiring_norm(8))
    then show ?thesis by simp
  qed
  finally show ?thesis .
qed

text \<open>
  C10, as the code has it. In every run of \<^verbatim>\<open>test\<close> the overall correct count is the sum
  of the positive and the negative correct counts. So on a non-empty validation set the
  overall accuracy that \<^verbatim>\<open>test\<close> returns is the float nearest to the arithmetic mean of
  the exact quotients pos/N and neg/N, and the positive and negative accuracies it
  returns are the floats nearest to these two quotients. The overall accuracy and the
  mean of the two returned accuracies agree up to that rounding: for N up to
  \<open>2\<^sup>1\<^sup>0\<^sup>2\<^sup>1\<close> they differ by at most \<open>2\<^sup>-\<^sup>5\<^sup>2\<close> times the exact mean.
\<close>

theorem test_overall_rounds_mean:
  "(case test_counts model bs of
      (num_correct, num_pos_correct, num_neg_correct) \<Rightarrow>
         num_correct = num_pos_correct + num_neg_correct) \<and>
   (let N = dataset_len loader;
        pos_exact = of_nat (similar_pairs (forward T (params w) False) (batches loader))
                      / of_nat N;
        neg_exact = of_nat (dissimilar_pairs (forward T (params w) False) (batches loader))
                      / of_nat N
    in (0 < N \<longrightarrow>
          snd (test T loader w)
            = Inr (binary64 ((pos_exact + neg_exact) / 2),
                   binary64 pos_exact, binary64 neg_exact)) \<and>
       (0 < N \<and> N \<le> 2 ^ 1021 \<longrightarrow>
          \<bar>binary64 ((pos_exact + neg_exact) / 2)
              - (binary64 pos_exact + binary64 neg_exact) / 2\<bar>
            \<le> ((pos_exact + neg_exact) / 2) / 2 ^ 52))"
proof -
  let ?N = "dataset_len loader"
  let ?sp = "similar_pairs (forward T (params w) False) (batches loader)"
  let ?dp = "dissimilar_pairs (forward T (params w) False) (batches loader)"
  let ?p = "of_nat ?sp / of_nat ?N :: rat"
  let ?n = "of_nat ?dp / of_nat ?N :: rat"
  let ?m = "of_nat (?sp + ?dp) / of_nat (2 * ?N) :: rat"
  have counts: "case test_counts model bs of
          (num_correct, num_pos_correct, num_neg_correct) \<Rightarrow>
            num_correct = num_pos_correct + num_neg_correct"
    by (simp add: test_counts_eq)
  have mean: "?m = (?p + ?n) / 2"
    by (simp add: add_divide_distrib)
  have returned: "snd (test T loader w) = Inr (binary64 ((?p + ?n) / 2), binary64 ?p, binary64 ?n)"
    if "0 < ?N"
  proof -
    from that have "snd (test T loader w) = Inr (binary64 ?m, binary64 ?p, binary64 ?n)"
      by (simp only: snd_test) simp
    then show ?thesis by (simp only: mean)
  qed
  have near: "\<bar>binary64 ((?p + ?n) / 2) - (binary64 ?p + binary64 ?n) / 2\<bar>
                \<le> ((?p + ?n) / 2) / 2 ^ 52"
    if N: "0 < ?N" "?N \<le> 2 ^ 1021"
  proof -
    from N(1) have N2: "0 < 2 * ?N" by simp
    have em: "\<bar>binary64 ?m - ?m\<bar> \<le> ?m / 2 ^ 53"
      by (rule binary64_quotient_error [OF N2 double_bound(1) [OF N(2)]])
    have ep: "\<bar>binary64 ?p - ?p\<bar> \<le> ?p / 2 ^ 53"
      by (rule binary64_quotient_error [OF N(1) double_bound(2) [OF N(2)]])
    have en: "\<bar>binary64 ?n - ?n\<bar> \<le> ?n / 2 ^ 53"
      by (rule binary64_quotient_error [OF N(1) double_bound(2) [OF N(2)]])
    from mean_error [OF mean em ep en] show ?thesis
      by (simp only: mean)
  qed
  from counts returned near show ?thesis
    unfolding Let_def by blast
qed

theorem test_overall_rounds_mean_witness:
  "0 < dataset_len ten_loader \<and> dataset_len ten_loader \<le> 2 ^ 1021 \<and>
   snd (test marked_torch ten_loader toy_world)
     = Inr (binary64 ((1 / 10 + 1 / 5) / 2), binary64 (1 / 10), binary64 (1 / 5)) \<and>
   \<bar>binary64 ((1 / 10 + 1 / 5) / 2) - (binary64 (1 / 10) + binary64 (1 / 5)) / 2\<bar>
     \<le> ((1 / 10 + 1 / 5) / 2) / 2 ^ 52"
proof -
  have len: "dataset_len ten_loader = 10"
    by (simp add: ten_loader_def ten_dataset_def)
  have n: "0 < dataset_len ten_loader"
    by (simp add: len)
  have "(10::nat) \<le> 2 ^ 4" by simp
  also have "(2::nat) ^ 4 \<le> 2 ^ 1021" by (rule power_increasing) simp_all
  finally have b: "dataset_len ten_loader \<le> 2 ^ 1021" by (simp only: len)
  have p: "of_nat (similar_pairs (forward marked_torch (params toy_world) False)
              (batches ten_loader)) / of_nat (dataset_len ten_loader) = (1 / 10 :: rat)"
    by code_simp
  have q: "of_nat (dissimilar_pairs (forward marked_torch (params toy_world) False)
              (batches ten_loader)) / of_nat (dataset_len ten_loader) = (1 / 5 :: rat)"
    by code_simp
  from n b test_overall_rounds_mean [of "forward marked_torch () False" "batches ten_loader"
      ten_loader marked_torch toy_world]
  show ?thesis
    unfolding Let_def p q by blast
qed

text \<open>
  The claim as the specification words it fails on the pass over ten graphs on which
  the model is right about one positive and two negative pairs. \<^verbatim>\<open>test\<close> returns the
  floats 0.15, 0.1 and 0.2; the mean of the last two is not the first, whether it is
  taken exactly or as Python computes \<^verbatim>\<open>(0.1 + 0.2) / 2\<close>, which is 0.15000000000000002.
\<close>

theorem returned_mean_counterexample:
  "snd (test marked_torch ten_loader toy_world)
     = Inr (5404319552844595 / 36028797018963968,
            3602879701896397 / 36028797018963968,
            3602879701896397 / 18014398509481984) \<and>
   (5404319552844595 / 36028797018963968 :: rat)
     \<noteq> (3602879701896397 / 36028797018963968 + 3602879701896397 / 18014398509481984) / 2 \<and>
   (5404319552844595 / 36028797018963968 :: rat)
     \<noteq> binary64 (binary64 (3602879701896397 / 36028797018963968
                                + 3602879701896397 / 18014398509481984) / 2)"
  by code_simp

lemma fst_test: "fst (test T loader w) = w\<lparr>training := False\<rparr>"
  by (simp add: test_def Let_def case_prod_unfold)

text \<open>
  C8. \<^verbatim>\<open>test\<close> leaves the state as it found it but for the eval flag of the model: the
  parameters, the files (the log among them), the directories and standard output are
  the same before and after, whatever it returns. It returns a triple exactly when the
  dataset of the loader is not empty.
\<close>

theorem test_frame:
  "fst (test T loader w) = w\<lparr>training := False\<rparr> \<and>
   params (fst (test T loader w)) = params w \<and>
   files (fst (test T loader w)) = files w \<and>
   dirs (fst (test T loader w)) = dirs w \<and>
   stdout (fst (test T loader w)) = stdout w \<and>
   (\<exists>r. snd (test T loader w) = Inr r) = (0 < dataset_len loader)"
  by (simp add: fst_test snd_test)

section \<open>The perfect classifier on the toy dataset\<close>

lemma forward_label_torch:
  "forward label_torch p flag xs ys = map label_score (zip xs ys)"
  by (simp add: label_torch_def)

lemma filter_map_all:
  "(\<And>z. z \<in> set zs \<Longrightarrow> P (g z)) \<Longrightarrow> length (filter P (map g zs)) = length zs"
  by (induction zs) simp_all

lemma valid_similar:
  assumes "valid_triples snd ds (anchors, positives, negatives)"
  shows "length (filter (\<lambda>s. 1 / 2 < s) (map label_score (zip anchors positives)))
           = length anchors"
proof -
  have "length (filter (\<lambda>s. 1 / 2 < s) (map label_score (zip anchors positives)))
          = length (zip anchors positives)"
  proof (rule filter_map_all)
    fix z assume "z \<in> set (zip anchors positives)"
    with assms have "snd (snd z) = snd (fst z)"
      by (auto simp: valid_triples_def list_all_iff)
    then show "1 / 2 < label_score z"
      by (simp add: label_score_def case_prod_unfold)
  qed
  with assms show ?thesis by (simp add: valid_triples_def)
qed

lemma valid_dissimilar:
  assumes "valid_triples snd ds (anchors, positives, negatives)"
  shows "length (filter (\<lambda>s. s < 1 / 2) (map label_score (zip anchors negatives)))
           = length anchors"
proof -
  have "length (filter (\<lambda>s. s < 1 / 2) (map label_score (zip anchors negatives)))
          = length (zip anchors negatives)"
  proof (rule filter_map_all)
    fix z assume "z \<in> set (zip anchors negatives)"
    with assms have "snd (snd z) \<noteq> snd (fst z)"
      by (auto simp: valid_triples_def list_all_iff)
    then show "label_score z < 1 / 2"
      by (auto simp add: label_score_def case_prod_unfold)
  qed
  with assms show ?thesis by (simp add: valid_triples_def)
qed

lemma valid_pass_counts:
  assumes "list_all (valid_triples snd ds) bs"
  shows "similar_pairs (forward label_torch p flag) bs = length (concat (map fst bs))"
    and "dissimilar_pairs (forward label_torch p flag) bs = length (concat (map fst bs))"
  using assms
proof (induction bs)
  case Nil
  { case 1 show ?case by (simp add: similar_pairs_def) }
  { case 2 show ?case by (simp add: dissimilar_pairs_def) }
next
  case (Cons b bs)
  obtain a ps ns where b: "b = (a, ps, ns)" by (cases b)
  { case 1
    then have v: "valid_triples snd ds (a, ps, ns)" and r: "list_all (valid_triples snd ds) bs"
      by (simp_all add: b)
    show ?case
      unfolding b similar_pairs_Cons forward_label_torch valid_similar [OF v]
      using Cons.IH(1) [OF r] by (simp add: forward_label_torch) }
  { case 2
    then have v: "valid_triples snd ds (a, ps, ns)" and r: "list_all (valid_triples snd ds) bs"
      by (simp_all add: b)
    show ?case
      unfolding b dissimilar_pairs_Cons forward_label_torch valid_dissimilar [OF v]
      using Cons.IH(2) [OF r] by (simp add: forward_label_torch) }
qed

text \<open>
  C4, as the code has it. On the toy dataset of four graphs labelled A, A, B, B, with
  the model that scores same-label pairs 1 and different-label pairs 0, every pass of
  triples (whatever the batches, the order and the sampled positives and negatives)
  makes \<^verbatim>\<open>test\<close> return overall accuracy 1, positive accuracy 1 and negative accuracy 1:
  the two correct counts are the size of the validation set, 4, and line 81 divides
  each of them by that size.
\<close>

theorem toy_perfect_classifier:
  assumes "valid_pass snd toy_dataset bs"
  shows "snd (test label_torch \<lparr>dataset_len = length toy_dataset, batches = bs\<rparr> w)
           = Inr (1, 1, 1)"
proof -
  from assms have v: "list_all (valid_triples snd toy_dataset) bs"
    and "mset (concat (map fst bs)) = mset toy_dataset"
    by (simp_all add: valid_pass_def)
  then have n: "length (concat (map fst bs)) = length toy_dataset"
    by (metis size_mset)
  have len: "length toy_dataset = 4" by (simp add: toy_dataset_def)
  show ?thesis
    by (simp add: snd_test valid_pass_counts [OF v] n len binary64_one)
qed

theorem toy_perfect_classifier_witness:
  "valid_pass snd toy_dataset (batches toy_loader) \<and>
   snd (test label_torch toy_loader toy_world) = Inr (1, 1, 1)"
proof -
  have v: "valid_pass snd toy_dataset (batches toy_loader)"
    by (simp add: valid_pass_def valid_triples_def toy_dataset_def toy_loader_def)
  have l: "\<lparr>dataset_len = length toy_dataset, batches = batches toy_loader\<rparr> = toy_loader"
    by (simp add: toy_loader_def)
  from v toy_perfect_classifier [OF v, of toy_world] show ?thesis
    by (simp only: l simp_thms)
qed

text \<open>
  The claim as the specification words it fails on this pass: the positive and the
  negative accuracy that \<^verbatim>\<open>test\<close> returns are 1, not the size 4 of the validation set.
\<close>

theorem toy_accuracy_counterexample:
  "snd (test label_torch toy_loader toy_world) = Inr (1, 1, 1) \<and>
   snd (test label_torch toy_loader toy_world)
     \<noteq> Inr (1, of_nat (dataset_len toy_loader), of_nat (dataset_len toy_loader))"
  by code_simp

section \<open>Properties of construction\<close>


text \<open>
  C6, as the code has it. For a name in neither list construction never returns a
  runner, and the exception is not a configuration error: it is the one that
  \<^verbatim>\<open>TUDataset\<close> raised for the name, or, when \<^verbatim>\<open>TUDataset\<close> loaded a dataset of that name,
  the \<^verbatim>\<open>AttributeError\<close> of line 36 for the attribute \<^verbatim>\<open>train_set\<close> that no branch assigned.
\<close>

theorem unknown_dataset_attribute_error:
  assumes "name \<notin> set plain_names" and "name \<notin> set degree_names"
  shows "init L data_root_path name max_epochs batch lr mtype layers hid pool fuse =
           (case tu_dataset L data_root_path name of
              Inl msg \<Rightarrow> Inl (External msg)
            | Inr dataset \<Rightarrow> Inl (AttributeError ''train_set''))"
  using assms
  by (auto simp: init_def get_dataset_def Let_def split: sum.splits)

theorem unknown_dataset_attribute_error_witness:
  "''ENZYMES'' \<notin> set plain_names \<and> ''ENZYMES'' \<notin> set degree_names \<and>
   init toy_library ''data'' ''ENZYMES'' 320 32 (1 / 10000) (Some ''gmnet'') 6 256
     ''sum'' ''abs_diff'' = (Inl (AttributeError ''train_set'') :: error + toy_graph runner \<times> unit)"
proof -
  have p: "''ENZYMES'' \<notin> set plain_names" by (simp add: plain_names_def)
  have d: "''ENZYMES'' \<notin> set degree_names" by (simp add: degree_names_def)
  from p d unknown_dataset_attribute_error [OF p d, of toy_library "''data''" 320 32
      "1 / 10000" "Some ''gmnet''" 6 256 "''sum''" "''abs_diff''"]
  show ?thesis by (simp add: toy_library_def)
qed

text \<open>
  The claim as the specification words it fails for the name ENZYMES, which
  \<^verbatim>\<open>TUDataset\<close> loads: construction ends with \<^verbatim>\<open>AttributeError\<close>, not with a configuration
  error.
\<close>

theorem unknown_dataset_counterexample:
  "init toy_library ''data'' ''ENZYMES'' 320 32 (1 / 10000) (Some ''gmnet'') 6 256
     ''sum'' ''abs_diff''
     = (Inl (AttributeError ''train_set'') :: error + toy_graph runner \<times> unit) \<and>
   init toy_library ''data'' ''ENZYMES'' 320 32 (1 / 10000) (Some ''gmnet'') 6 256
     ''sum'' ''abs_diff''
     \<noteq> (Inl ConfigurationError :: error + toy_graph runner \<times> unit)"
  by (simp add: init_def get_dataset_def toy_library_def plain_names_def degree_names_def)

section \<open>Paths of the checkpoints\<close>







section \<open>What \<^verbatim>\<open>train_test\<close> writes\<close>
















section \<open>The epochs that are saved\<close>

text \<open>
  The epochs after which line 109 saves the parameters are those strictly above
  \<^verbatim>\<open>max_num_epochs - num_save\<close>: for \<^verbatim>\<open>num_save\<close> between 1 and the number of epochs, that is
  \<^verbatim>\<open>num_save - 1\<close> epochs.
\<close>

lemma filter_above:
  "filter (\<lambda>e. k < int e) [0 ..< n] = [nat (k + 1) ..< n]"
proof (induction n)
  case 0
  show ?case by simp
next
  case (Suc n)
  show ?case
  proof (cases "k < int n")
    case True
    then have "nat (k + 1) \<le> n" by linarith
    with Suc True show ?thesis by (simp add: upt_Suc_append)
  next
    case False
    then have "Suc n \<le> nat (k + 1)" by linarith
    with Suc False show ?thesis by simp
  qed
qed

lemma saved_epochs_interval:
  assumes "model_type (dis self) \<noteq> None"
  shows "filter (saves_checkpoint self num_save) [0 ..< nat (max_num_epochs self)]
           = [nat (max_num_epochs self - num_save + 1) ..< nat (max_num_epochs self)]"
proof -
  have "saves_checkpoint self num_save = (\<lambda>e. max_num_epochs self - num_save < int e)"
    using assms by (auto simp: saves_checkpoint_def fun_eq_iff)
  then show ?thesis by (simp only: filter_above)
qed

lemma saved_epochs_count:
  assumes "model_type (dis self) \<noteq> None" and "1 \<le> num_save" and "num_save \<le> max_num_epochs self"
  shows "length (filter (saves_checkpoint self num_save) [0 ..< nat (max_num_epochs self)])
           = nat (num_save - 1)"
  using assms by (simp add: saved_epochs_interval)

text \<open>
  C1 at a failing input. With three epochs and \<^verbatim>\<open>num_save = 1\<close> the interval of the
  claim is the single epoch 2, yet the run ends without any exception and without a
  checkpoint of epoch 2: line 109 asks for \<^verbatim>\<open>epoch > max_num_epochs - num_save\<close>, which
  leaves out the first epoch of the interval. With the defaults, 320 epochs and
  \<^verbatim>\<open>num_save = 30\<close>, epoch 290 is not saved and epoch 291 is the first that is.
\<close>

theorem first_checkpoint_missing:
  "snd (train_test count_torch toy_passes (toy_runner 3) ''out'' 1 ''record.txt'' empty_disk) = None \<and>
   files (fst (train_test count_torch toy_passes (toy_runner 3) ''out'' 1 ''record.txt''
                 empty_disk)) ''out/MUTAG/gmnet/0002.pt'' = None \<and>
   saves_checkpoint (toy_runner 3) 1 2 = False \<and>
   saves_checkpoint (toy_runner 320) 30 290 = False \<and>
   saves_checkpoint (toy_runner 320) 30 291 = True"
  by code_simp

section \<open>What \<^verbatim>\<open>train_test\<close> reports, and on which graphs\<close>











end
